theory Spec2Isabelle
  imports Main "HOL-Library.Word"
begin

section \<open>JavaScript strings and the library functions the pages call\<close>

text \<open>
  A JavaScript string is a sequence of 16-bit code units. String literals of the source
  are written through \<open>js\<close>, which embeds an ASCII literal code unit by code unit.
\<close>

type_synonym js_char = "16 word"
type_synonym js_string = "js_char list"

definition js :: "string \<Rightarrow> js_string" where
  "js s = map (\<lambda>c. of_nat (of_char c)) s"

text \<open>The delimiter of \<^verbatim>\<open>val.split("_")\<close>: the code unit U+005F.\<close>

definition underscore :: js_char where
  "underscore = 0x5F"

text \<open>
  \<^verbatim>\<open>String.prototype.split\<close> for a separator of one code unit: the string is scanned
  from the left, \<open>cur\<close> holds the piece being read, and each separator closes a piece.
  The last piece is always pushed, so the array of an empty string is \<^verbatim>\<open>[""]\<close>.
\<close>

fun split_from :: "js_char \<Rightarrow> js_string \<Rightarrow> js_string \<Rightarrow> js_string list" where
  "split_from sep cur [] = [cur]"
| "split_from sep cur (c # cs) =
     (if c = sep then cur # split_from sep [] cs else split_from sep (cur @ [c]) cs)"

definition split_js :: "js_char \<Rightarrow> js_string \<Rightarrow> js_string list" where
  "split_js sep s = split_from sep [] s"

text \<open>
  Reading index 0 of an array: \<^verbatim>\<open>undefined\<close> (\<open>None\<close>) when the array is empty.
\<close>

definition index0 :: "'a list \<Rightarrow> 'a option" where
  "index0 xs = (case xs of [] \<Rightarrow> None | x # _ \<Rightarrow> Some x)"

text \<open>
  \<^verbatim>\<open>const cleanName = (val: string) => val.split("_")[0];\<close>
  (the same helper in the Explore page and in the Report page).
\<close>

definition cleanName :: "js_string \<Rightarrow> js_string option" where
  "cleanName val = index0 (split_js underscore val)"

text \<open>
  \<^verbatim>\<open>new Set(xs)\<close> adds the elements of \<open>xs\<close> from left to right; adding an element
  that the set already holds leaves it as it is. A set is kept as the list of its
  elements in insertion order, which is what \<^verbatim>\<open>[...set]\<close> lists.
\<close>

definition set_add :: "'a list \<Rightarrow> 'a \<Rightarrow> 'a list" where
  "set_add s x = (if x \<in> set s then s else s @ [x])"

definition new_Set :: "'a list \<Rightarrow> 'a list" where
  "new_Set xs = foldl set_add [] xs"

text \<open>A string is truthy when it is not empty.\<close>

definition truthy :: "js_string \<Rightarrow> bool" where
  "truthy v = (v \<noteq> [])"

text \<open>\<^verbatim>\<open>a || b\<close> on a value that may be \<^verbatim>\<open>undefined\<close>, with a string default.\<close>

definition or_else :: "js_string option \<Rightarrow> js_string \<Rightarrow> js_string" where
  "or_else a b = (case a of None \<Rightarrow> b | Some v \<Rightarrow> if truthy v then v else b)"

text \<open>
  The code units that \<^verbatim>\<open>String.prototype.trim\<close> strips: the WhiteSpace and
  LineTerminator code points of ECMAScript, all of them in the basic plane.
\<close>

definition is_white_space :: "js_char \<Rightarrow> bool" where
  "is_white_space c =
     (c = 0x0009 \<or> c = 0x000A \<or> c = 0x000B \<or> c = 0x000C \<or> c = 0x000D \<or> c = 0x0020 \<or>
      c = 0x00A0 \<or> c = 0x1680 \<or> (0x2000 \<le> c \<and> c \<le> 0x200A) \<or> c = 0x2028 \<or>
      c = 0x2029 \<or> c = 0x202F \<or> c = 0x205F \<or> c = 0x3000 \<or> c = 0xFEFF)"

definition trim :: "js_string \<Rightarrow> js_string" where
  "trim s = rev (dropWhile is_white_space (rev (dropWhile is_white_space s)))"

text \<open>The decimal digits of a number, as a template literal prints \<^verbatim>\<open>res.length\<close>.\<close>

fun show_nat :: "nat \<Rightarrow> js_string" where
  "show_nat n =
     (if n < 10 then [of_nat (48 + n)] else show_nat (n div 10) @ [of_nat (48 + n mod 10)])"

text \<open>
  \<^verbatim>\<open>s.replace(a, b)\<close> with one code unit for each of \<open>a\<close> and \<open>b\<close>: only the first
  occurrence is replaced.
\<close>

fun replace_first :: "js_char \<Rightarrow> js_char \<Rightarrow> js_string \<Rightarrow> js_string" where
  "replace_first a b [] = []"
| "replace_first a b (c # cs) = (if c = a then b # cs else c # replace_first a b cs)"

text \<open>\<^verbatim>\<open>xs.pop()\<close>: the last element, \<^verbatim>\<open>undefined\<close> on an empty array.\<close>

definition pop :: "'a list \<Rightarrow> 'a option" where
  "pop xs = (if xs = [] then None else Some (last xs))"

text \<open>
  The conversion of a string to a \<^verbatim>\<open>USVString\<close>, which \<^verbatim>\<open>URLSearchParams.append\<close>
  applies to its two arguments: a high surrogate followed by a low surrogate is kept as
  the pair it is, and every other surrogate code unit becomes U+FFFD.
\<close>

definition is_high_surrogate :: "js_char \<Rightarrow> bool" where
  "is_high_surrogate c = (0xD800 \<le> c \<and> c \<le> 0xDBFF)"

definition is_low_surrogate :: "js_char \<Rightarrow> bool" where
  "is_low_surrogate c = (0xDC00 \<le> c \<and> c \<le> 0xDFFF)"

fun to_usv :: "js_string \<Rightarrow> js_string" where
  "to_usv [] = []"
| "to_usv [c] = (if is_high_surrogate c \<or> is_low_surrogate c then [0xFFFD] else [c])"
| "to_usv (c # d # cs) =
     (if is_high_surrogate c
      then (if is_low_surrogate d then c # d # to_usv cs else 0xFFFD # to_usv (d # cs))
      else if is_low_surrogate c then 0xFFFD # to_usv (d # cs)
      else c # to_usv (d # cs))"

text \<open>
  \<^verbatim>\<open>String.prototype.isWellFormed\<close>: the string has no surrogate code unit outside a
  pair.
\<close>

fun isWellFormed :: "js_string \<Rightarrow> bool" where
  "isWellFormed [] = True"
| "isWellFormed [c] = (\<not> is_high_surrogate c \<and> \<not> is_low_surrogate c)"
| "isWellFormed (c # d # cs) =
     (if is_high_surrogate c then is_low_surrogate d \<and> isWellFormed cs
      else \<not> is_low_surrogate c \<and> isWellFormed (d # cs))"

section \<open>The backend helpers and what a page does to the outside\<close>

text \<open>
  \<^verbatim>\<open>getData\<close> and \<^verbatim>\<open>postData\<close> (src/lib/api.ts) throw when the response is not ok
  and rethrow what \<^verbatim>\<open>fetch\<close> throws. The server is not part of the pages: a handler
  takes the helper as a function from the request to the error thrown or the JSON
  returned.
\<close>

datatype api_error = HttpError nat | FetchFailed

record toast =
  title :: js_string
  description :: js_string
  variant :: "js_string option"

text \<open>
  What a handler does besides setting state, in the order it does it: a toast, a request
  to the backend (\<open>'req\<close> is what the page sends), a \<^verbatim>\<open>console.error\<close> with its
  optional label, a click on a download link (\<open>href\<close>, \<open>download\<close>), and
  \<^verbatim>\<open>e.preventDefault()\<close>.
\<close>

datatype 'req event =
    Toast toast
  | Request 'req
  | ConsoleError "js_string option" api_error
  | Download js_string js_string
  | PreventDefault

text \<open>
  \<^verbatim>\<open>try { body } catch (error) { handler }\<close>: the handler runs on what the body throws.
\<close>

definition try_catch :: "'e + 'a \<Rightarrow> ('e \<Rightarrow> 'e + 'a) \<Rightarrow> 'e + 'a" where
  "try_catch body handler = (case body of Inl e \<Rightarrow> handler e | Inr v \<Rightarrow> Inr v)"

section \<open>The Explore page\<close>

text \<open>A row of \<^verbatim>\<open>res.raw\<close> as \<^verbatim>\<open>/available-filters\<close> returns it.\<close>

record raw_row =
  raw_state :: js_string
  raw_district :: js_string
  raw_block :: js_string

text \<open>A row of \<^verbatim>\<open>rawFilters\<close>: each field is what \<open>cleanName\<close> returned.\<close>

record filter_row =
  row_state :: "js_string option"
  row_district :: "js_string option"
  row_block :: "js_string option"

definition clean_row :: "raw_row \<Rightarrow> filter_row" where
  "clean_row r =
     \<lparr>row_state = cleanName (raw_state r),
      row_district = cleanName (raw_district r),
      row_block = cleanName (raw_block r)\<rparr>"

record available_filters =
  res_raw :: "raw_row list"
  res_states :: "js_string list"
  res_years :: "int list"
  res_seasons :: "js_string list"

record filter_values =
  state :: js_string
  district :: js_string
  block :: js_string
  year :: js_string
  season :: js_string

record filter_options =
  states :: "js_string option list"
  districts :: "js_string option list"
  blocks :: "js_string option list"
  years :: "int list"
  seasons :: "js_string list"

text \<open>
  A record of \<^verbatim>\<open>/water-level\<close>, with the fields the page reads. The water level is
  only passed on, so its type is left open.
\<close>

record 'v water_row =
  rec_district :: js_string
  rec_block :: js_string
  rec_year :: int
  rec_season :: js_string
  water_level :: 'v

record 'v chart_point =
  cp_year :: int
  level :: 'v

record 'v explore =
  filters :: filter_values
  filterOptions :: filter_options
  rawFilters :: "filter_row list"
  rows :: "'v water_row list"
  chartData :: "'v chart_point list"

text \<open>
  A request of the Explore page: the path and the entries of its
  \<^verbatim>\<open>URLSearchParams\<close>, in the order they were appended.
\<close>

type_synonym search_params = "(js_string \<times> js_string) list"
type_synonym explore_request = "js_string \<times> search_params"

text \<open>The first effect: load the filters once.\<close>

definition load :: "api_error + available_filters \<Rightarrow> 'v explore \<Rightarrow>
    api_error + 'v explore \<times> explore_request event list" where
  "load getData st =
     try_catch
       (case getData of
          Inl err \<Rightarrow> Inl err
        | Inr res \<Rightarrow>
            Inr (st\<lparr>rawFilters := map clean_row (res_raw res),
                    filterOptions :=
                      \<lparr>states = map cleanName (res_states res), districts = [], blocks = [],
                       years = res_years res, seasons = res_seasons res\<rparr>\<rparr>,
                 [Request (js ''/available-filters'', [])]))
       (\<lambda>err. Inr (st,
          [Request (js ''/available-filters'', []),
           Toast \<lparr>title = js ''Error'', description = js ''Failed to load filter options.'',
                  variant = Some (js ''destructive'')\<rparr>]))"

text \<open>The effect on \<^verbatim>\<open>filters.state\<close>: load only its districts.\<close>

definition state_effect :: "'v explore \<Rightarrow> 'v explore" where
  "state_effect st =
     (if \<not> truthy (state (filters st)) then st
      else
        let ds = map row_district
                   (filter (\<lambda>r. row_state r = Some (state (filters st))) (rawFilters st))
        in st\<lparr>filterOptions := (filterOptions st)\<lparr>districts := new_Set ds, blocks := []\<rparr>,
              filters := (filters st)\<lparr>district := [], block := []\<rparr>\<rparr>)"

text \<open>The effect on \<^verbatim>\<open>filters.district\<close>: load only its blocks.\<close>

definition district_effect :: "'v explore \<Rightarrow> 'v explore" where
  "district_effect st =
     (if \<not> truthy (district (filters st)) then st
      else
        let bs = map row_block
                   (filter (\<lambda>r. row_district r = Some (district (filters st))) (rawFilters st))
        in st\<lparr>filterOptions := (filterOptions st)\<lparr>blocks := new_Set bs\<rparr>,
              filters := (filters st)\<lparr>block := []\<rparr>\<rparr>)"

text \<open>\<^verbatim>\<open>Object.entries(filters)\<close>: the five keys in the order the object lists them.\<close>

definition entries :: "filter_values \<Rightarrow> (js_string \<times> js_string) list" where
  "entries f =
     [(js ''state'', state f), (js ''district'', district f), (js ''block'', block f),
      (js ''year'', year f), (js ''season'', season f)]"

text \<open>
  \<^verbatim>\<open>qp.append(k, v)\<close>: the name and the value are stored as \<^verbatim>\<open>USVString\<close>s, after
  the entries the parameters already hold.
\<close>

definition qp_append :: "search_params \<Rightarrow> js_string \<Rightarrow> js_string \<Rightarrow> search_params" where
  "qp_append qp k v = qp @ [(to_usv k, to_usv v)]"

text \<open>
  The loop of \<open>handleSearch\<close>:
  \<^verbatim>\<open>Object.entries(filters).forEach(([k, v]) => { if (v) qp.append(k, v); });\<close>
\<close>

definition append_if_set :: "search_params \<Rightarrow> js_string \<times> js_string \<Rightarrow> search_params" where
  "append_if_set qp kv = (if truthy (snd kv) then qp_append qp (fst kv) (snd kv) else qp)"

definition build_params :: "filter_values \<Rightarrow> search_params" where
  "build_params f = foldl append_if_set [] (entries f)"

definition to_chart :: "'v water_row \<Rightarrow> 'v chart_point" where
  "to_chart r = \<lparr>cp_year = rec_year r, level = water_level r\<rparr>"

definition handleSearch :: "(explore_request \<Rightarrow> api_error + 'v water_row list) \<Rightarrow> 'v explore \<Rightarrow>
    api_error + 'v explore \<times> explore_request event list" where
  "handleSearch getData st =
     (let qp = build_params (filters st); req = (js ''/water-level'', qp) in
      try_catch
        (case getData req of
           Inl err \<Rightarrow> Inl err
         | Inr res \<Rightarrow>
             Inr (st\<lparr>rows := res, chartData := map to_chart res\<rparr>,
                  [Request req,
                   Toast \<lparr>title = js ''Loaded'',
                          description = show_nat (length res) @ js '' records found.'',
                          variant = None\<rparr>]))
        (\<lambda>err. Inr (st,
           [Request req,
            Toast \<lparr>title = js ''No Data Found'',
                   description = js ''No results for selected filters.'',
                   variant = Some (js ''destructive'')\<rparr>])))"

section \<open>The Report page\<close>

record report_config =
  rc_state :: js_string
  rc_district :: js_string
  rc_block :: js_string
  reportType :: js_string
  includeCharts :: bool
  includeTrends :: bool
  includeComparisons :: bool
  includeRecommendations :: bool

record report_options =
  rep_states :: "js_string option list"
  rep_districts :: "js_string option list"
  rep_blocks :: "js_string option list"

record report =
  rep_filterOptions :: report_options
  rep_rawFilters :: "filter_row list"
  reportConfig :: report_config

text \<open>
  What \<^verbatim>\<open>/available-filters\<close> returns to the Report page, which guards both fields
  it reads with \<^verbatim>\<open>|| []\<close>.
\<close>

record report_filters =
  rf_raw :: "raw_row list option"
  rf_states :: "js_string list option"

definition or_empty :: "'a list option \<Rightarrow> 'a list" where
  "or_empty xs = (case xs of None \<Rightarrow> [] | Some ys \<Rightarrow> ys)"

type_synonym report_request = "js_string \<times> report_config option"

definition loadFilters :: "api_error + report_filters \<Rightarrow> report \<Rightarrow>
    api_error + report \<times> report_request event list" where
  "loadFilters getData st =
     try_catch
       (case getData of
          Inl err \<Rightarrow> Inl err
        | Inr res \<Rightarrow>
            Inr (st\<lparr>rep_rawFilters := map clean_row (or_empty (rf_raw res)),
                    rep_filterOptions :=
                      \<lparr>rep_states = map cleanName (or_empty (rf_states res)),
                       rep_districts = [], rep_blocks = []\<rparr>\<rparr>,
                 [Request (js ''/available-filters'', None)]))
       (\<lambda>err. Inr (st,
          [Request (js ''/available-filters'', None),
           ConsoleError (Some (js ''Error loading filters'')) err,
           Toast \<lparr>title = js ''Error'', description = js ''Could not load filters from backend.'',
                  variant = Some (js ''destructive'')\<rparr>]))"

definition report_state_effect :: "report \<Rightarrow> report" where
  "report_state_effect st =
     (if \<not> truthy (rc_state (reportConfig st)) then st
      else
        let ds = map row_district
                   (filter (\<lambda>r. row_state r = Some (rc_state (reportConfig st)))
                      (rep_rawFilters st))
        in st\<lparr>rep_filterOptions :=
                (rep_filterOptions st)\<lparr>rep_districts := new_Set ds, rep_blocks := []\<rparr>,
              reportConfig := (reportConfig st)\<lparr>rc_district := [], rc_block := []\<rparr>\<rparr>)"

definition report_district_effect :: "report \<Rightarrow> report" where
  "report_district_effect st =
     (if \<not> truthy (rc_district (reportConfig st)) then st
      else
        let bs = map row_block
                   (filter (\<lambda>r. row_district r = Some (rc_district (reportConfig st)))
                      (rep_rawFilters st))
        in st\<lparr>rep_filterOptions := (rep_filterOptions st)\<lparr>rep_blocks := new_Set bs\<rparr>,
              reportConfig := (reportConfig st)\<lparr>rc_block := []\<rparr>\<rparr>)"

text \<open>The JSON of \<^verbatim>\<open>/generate_report\<close>; the page reads it through \<^verbatim>\<open>result?.\<close>\<close>

record report_result =
  message :: "js_string option"
  path :: "js_string option"

definition missing_information :: toast where
  "missing_information =
     \<lparr>title = js ''Missing Information'', description = js ''Please fill all required fields.'',
      variant = Some (js ''destructive'')\<rparr>"

definition generating_report :: toast where
  "generating_report =
     \<lparr>title = js ''Generating Report'', description = js ''Please wait...'', variant = None\<rparr>"

text \<open>The download of the file, when the result has a path.\<close>

definition download_file :: "report_result option \<Rightarrow> report_request event list" where
  "download_file result =
     (case Option.bind result path of
        None \<Rightarrow> []
      | Some p \<Rightarrow>
          if truthy p
          then [Download (js ''http://127.0.0.1:8000/'' @ replace_first 0x5C 0x2F p)
                  (or_else (pop (split_js 0x2F p)) (js ''report.pdf''))]
          else [])"

definition handleGenerateReport ::
    "(report_request \<Rightarrow> api_error + report_result option) \<Rightarrow> report \<Rightarrow>
     api_error + report_request event list" where
  "handleGenerateReport postData st =
     (let cfg = reportConfig st in
      if \<not> truthy (rc_state cfg) \<or> \<not> truthy (rc_district cfg) \<or> \<not> truthy (reportType cfg)
      then Inr [Toast missing_information]
      else
        let req = (js ''/generate_report'', Some cfg) in
        try_catch
          (case postData req of
             Inl err \<Rightarrow> Inl err
           | Inr result \<Rightarrow>
               Inr ([Toast generating_report, Request req,
                     Toast \<lparr>title = js ''Report Ready'',
                            description = or_else (Option.bind result message)
                                            (js ''Report generated successfully.''),
                            variant = None\<rparr>]
                    @ download_file result))
          (\<lambda>err. Inr [Toast generating_report, Request req, ConsoleError None err,
             Toast \<lparr>title = js ''Error'', description = js ''Failed to generate report.'',
                    variant = Some (js ''destructive'')\<rparr>]))"

section \<open>The Ask page\<close>

record chat_message =
  msg_type :: js_string
  content :: js_string

record ask =
  query :: js_string
  messages :: "chat_message list"

text \<open>The JSON of \<^verbatim>\<open>/ask_ai\<close>, read through \<^verbatim>\<open>response?.answer\<close>.\<close>

record ask_response =
  answer :: "js_string option"

text \<open>The body sent to \<^verbatim>\<open>/ask_ai\<close>: the question and \<open>k\<close>.\<close>

type_synonym ask_request = "js_string \<times> js_string \<times> nat"

definition no_answer :: js_string where
  "no_answer = js ''Sorry, I couldn't fetch an answer.''"

text \<open>
  The message of the catch branch. It starts with a warning sign, U+26A0 U+FE0F.
\<close>

definition backend_unreachable :: js_string where
  "backend_unreachable =
     [0x26A0, 0xFE0F] @ js '' Unable to reach AI backend. Please check if the server is running.''"

definition processing :: toast where
  "processing =
     \<lparr>title = js ''Processing...'', description = js ''AI is generating a response.'',
      variant = None\<rparr>"

definition backend_not_responding :: toast where
  "backend_not_responding =
     \<lparr>title = js ''Error'', description = js ''Backend not responding.'',
      variant = Some (js ''destructive'')\<rparr>"

definition handleSubmit ::
    "(ask_request \<Rightarrow> api_error + ask_response option) \<Rightarrow> ask \<Rightarrow>
     api_error + ask \<times> ask_request event list" where
  "handleSubmit postData st =
     (if \<not> truthy (trim (query st)) then Inr (st, [PreventDefault])
      else
        let newMessages = messages st @ [\<lparr>msg_type = js ''user'', content = query st\<rparr>];
            st1 = st\<lparr>messages := newMessages, query := []\<rparr>;
            req = (js ''/ask_ai'', query st, 5);
            before = [PreventDefault, Toast processing, Request req]
        in
        try_catch
          (case postData req of
             Inl err \<Rightarrow> Inl err
           | Inr response \<Rightarrow>
               let botReply = or_else (Option.bind response answer) no_answer in
               Inr (st1\<lparr>messages :=
                          messages st1 @ [\<lparr>msg_type = js ''bot'', content = botReply\<rparr>]\<rparr>,
                    before))
          (\<lambda>err.
             Inr (st1\<lparr>messages :=
                        messages st1 @
                          [\<lparr>msg_type = js ''bot'', content = backend_unreachable\<rparr>]\<rparr>,
                  before @
                    [ConsoleError (Some (js ''Ask API Error:'')) err,
                     Toast backend_not_responding])))"

section \<open>Reading a notification\<close>

text \<open>
  \<^verbatim>\<open>s.startsWith(p)\<close> and \<^verbatim>\<open>s.includes(sub)\<close>, to say whether the text of a notification
  mentions a field.
\<close>

fun starts_with :: "js_string \<Rightarrow> js_string \<Rightarrow> bool" where
  "starts_with s [] = True"
| "starts_with [] (p # ps) = False"
| "starts_with (c # cs) (p # ps) = (c = p \<and> starts_with cs ps)"

fun js_includes :: "js_string \<Rightarrow> js_string \<Rightarrow> bool" where
  "js_includes [] sub = (sub = [])"
| "js_includes (c # cs) sub = (starts_with (c # cs) sub \<or> js_includes cs sub)"

definition names_field :: "toast \<Rightarrow> js_string \<Rightarrow> bool" where
  "names_field t f = (js_includes (title t) f \<or> js_includes (description t) f)"

section \<open>Example data\<close>

text \<open>
  Rows as \<^verbatim>\<open>/available-filters\<close> may return them: two states, a district code that occurs
  twice under different suffixes, and a district of another state.
\<close>

definition example_raw :: "raw_row list" where
  "example_raw =
     [\<lparr>raw_state = js ''Gujarat_1'', raw_district = js ''Mehsana_5'', raw_block = js ''Kadi_2''\<rparr>,
      \<lparr>raw_state = js ''Gujarat_1'', raw_district = js ''Patan_3'', raw_block = js ''Sami_4''\<rparr>,
      \<lparr>raw_state = js ''Gujarat_9'', raw_district = js ''Mehsana_7'', raw_block = js ''Unjha_1''\<rparr>,
      \<lparr>raw_state = js ''Rajasthan_2'', raw_district = js ''Jaipur_1'', raw_block = js ''Amber_6''\<rparr>]"

definition no_filters :: filter_values where
  "no_filters = \<lparr>state = [], district = [], block = [], year = [], season = []\<rparr>"

definition example_explore :: "int explore" where
  "example_explore =
     \<lparr>filters = no_filters,
      filterOptions = \<lparr>states = [], districts = [], blocks = [], years = [], seasons = []\<rparr>,
      rawFilters = map clean_row example_raw, rows = [], chartData = []\<rparr>"

definition example_config :: report_config where
  "example_config =
     \<lparr>rc_state = js ''Gujarat'', rc_district = js ''Mehsana'', rc_block = [],
      reportType = js ''annual'',
      includeCharts = True, includeTrends = True, includeComparisons = False,
      includeRecommendations = True\<rparr>"

definition example_report :: report where
  "example_report =
     \<lparr>rep_filterOptions = \<lparr>rep_states = [], rep_districts = [], rep_blocks = []\<rparr>,
      rep_rawFilters = map clean_row example_raw,
      reportConfig = example_config\<rparr>"

definition report_backend :: "report_request \<Rightarrow> api_error + report_result option" where
  "report_backend req =
     Inr (Some \<lparr>message = Some (js ''done''), path = Some (js ''reports/Mehsana.pdf'')\<rparr>)"

definition backend_down :: "'req \<Rightarrow> api_error + 'a" where
  "backend_down req = Inl FetchFailed"

text \<open>Records of \<^verbatim>\<open>/water-level\<close> that come newest first, the level in centimetres.\<close>

definition example_rows :: "int water_row list" where
  "example_rows =
         [\<lparr>rec_district = js ''Mehsana'', rec_block = js ''Kadi'', rec_year = 2021,
           rec_season = js ''pre'', water_level = 1240\<rparr>,
          \<lparr>rec_district = js ''Mehsana'', rec_block = js ''Unjha'', rec_year = 2021,
           rec_season = js ''pre'', water_level = 1310\<rparr>,
          \<lparr>rec_district = js ''Mehsana'', rec_block = js ''Kadi'', rec_year = 2020,
           rec_season = js ''pre'', water_level = 1190\<rparr>]"

definition newest_first :: "explore_request \<Rightarrow> api_error + int water_row list" where
  "newest_first req = Inr example_rows"

definition example_ask :: ask where
  "example_ask =
     \<lparr>query = js ''What is an aquifer?'',
      messages = [\<lparr>msg_type = js ''bot'', content = js ''Hello!''\<rparr>]\<rparr>"

definition ask_backend :: "ask_request \<Rightarrow> api_error + ask_response option" where
  "ask_backend req = Inr (Some \<lparr>answer = Some (js ''A layer of rock that holds water.'')\<rparr>)"

section \<open>The name normalizer\<close>

lemma split_from_no_sep:
  "sep \<notin> set s \<Longrightarrow> split_from sep cur s = [cur @ s]"
  by (induction s arbitrary: cur) auto

lemma split_from_first_sep:
  "sep \<notin> set pre \<Longrightarrow>
   split_from sep cur (pre @ sep # post) = (cur @ pre) # split_from sep [] post"
  by (induction pre arbitrary: cur) auto

lemma cleanName_no_delimiter:
  "underscore \<notin> set raw \<Longrightarrow> cleanName raw = Some raw"
  by (simp add: cleanName_def split_js_def index0_def split_from_no_sep)

lemma cleanName_before_delimiter:
  "underscore \<notin> set pre \<Longrightarrow> cleanName (pre @ underscore # post) = Some pre"
  by (simp add: cleanName_def split_js_def index0_def split_from_first_sep)

lemma cleanName_takeWhile:
  "cleanName raw = Some (takeWhile (\<lambda>c. c \<noteq> underscore) raw)"
proof (cases "underscore \<in> set raw")
  case True
  then obtain pre post where
    raw: "raw = pre @ underscore # post" and pre: "underscore \<notin> set pre"
    by (auto dest: split_list_first)
  from pre have "\<forall>c \<in> set pre. c \<noteq> underscore"
    by blast
  then have "takeWhile (\<lambda>c. c \<noteq> underscore) raw = pre"
    unfolding raw by simp
  with pre show ?thesis
    unfolding raw by (simp add: cleanName_before_delimiter)
next
  case False
  then have whole: "takeWhile (\<lambda>c. c \<noteq> underscore) raw = raw"
    by auto
  from False show ?thesis
    unfolding whole by (rule cleanName_no_delimiter)
qed

lemma js_underscore: "js ''_'' = [underscore]"
  by (simp add: js_def underscore_def)

text \<open>
  C1. \<open>cleanName\<close> returns the part of the raw string before the first delimiter
  \<^verbatim>\<open>"_"\<close>; a raw string without delimiter is returned unchanged; the empty string
  gives the empty string, and in no case is the result \<^verbatim>\<open>undefined\<close>.
\<close>

theorem cleanName_prefix_before_first_delimiter:
  "(underscore \<notin> set pre \<longrightarrow> cleanName (pre @ js ''_'' @ post) = Some pre) \<and>
   (underscore \<notin> set raw \<longrightarrow> cleanName raw = Some raw) \<and>
   cleanName (js '''') = Some (js '''') \<and>
   cleanName val \<noteq> None"
proof -
  have "underscore \<notin> set pre \<longrightarrow> cleanName (pre @ js ''_'' @ post) = Some pre"
    by (simp add: js_underscore cleanName_before_delimiter)
  moreover have "underscore \<notin> set raw \<longrightarrow> cleanName raw = Some raw"
    by (simp add: cleanName_no_delimiter)
  moreover have "cleanName (js '''') = Some (js '''')"
    by (simp add: js_def cleanName_no_delimiter)
  moreover have "cleanName val \<noteq> None"
    by (simp add: cleanName_takeWhile)
  ultimately show ?thesis by blast
qed

theorem cleanName_prefix_witness:
  "cleanName (js ''Gujarat_112'') = Some (js ''Gujarat'') \<and>
   cleanName (js ''Mehsana_5_7'') = Some (js ''Mehsana'') \<and>
   cleanName (js ''Kadi'') = Some (js ''Kadi'')"
proof -
  have a: "underscore \<notin> set (js ''Gujarat'')"
    and b: "underscore \<notin> set (js ''Mehsana'')"
    and c: "underscore \<notin> set (js ''Kadi'')"
    by (simp_all add: js_def underscore_def)
  have "cleanName (js ''Gujarat'' @ js ''_'' @ js ''112'') = Some (js ''Gujarat'')"
    using cleanName_prefix_before_first_delimiter
      [of "js ''Gujarat''" "js ''112''" "js ''Kadi''" "[]"] a by blast
  moreover have "cleanName (js ''Mehsana'' @ js ''_'' @ js ''5_7'') = Some (js ''Mehsana'')"
    using cleanName_prefix_before_first_delimiter
      [of "js ''Mehsana''" "js ''5_7''" "js ''Kadi''" "[]"] b by blast
  moreover have "cleanName (js ''Kadi'') = Some (js ''Kadi'')"
    using cleanName_prefix_before_first_delimiter
      [of "js ''Gujarat''" "js ''112''" "js ''Kadi''" "[]"] c by blast
  ultimately show ?thesis by (simp add: js_def)
qed

text \<open>
  C8. Normalization is idempotent: normalizing a normalized name changes nothing.
\<close>

theorem cleanName_idempotent:
  "Option.bind (cleanName x) cleanName = cleanName x"
proof -
  have "underscore \<notin> set (takeWhile (\<lambda>c. c \<noteq> underscore) x)"
    by (auto dest: set_takeWhileD)
  then show ?thesis
    by (simp add: cleanName_takeWhile cleanName_no_delimiter)
qed

text \<open>
  C9. A raw name that begins with the delimiter is normalized to the empty string,
  although the raw name itself is not empty.
\<close>

theorem cleanName_leading_delimiter_empty:
  "raw = underscore # rest \<Longrightarrow> raw \<noteq> [] \<and> cleanName raw = Some []"
  using cleanName_before_delimiter [of "[]" rest] by simp

theorem cleanName_leading_delimiter_witness:
  "js ''_112'' \<noteq> [] \<and> cleanName (js ''_112'') = Some []"
proof -
  have "js ''_112'' = underscore # js ''112''"
    by (simp add: js_def underscore_def)
  from cleanName_leading_delimiter_empty [OF this] show ?thesis .
qed

section \<open>Insertion-ordered sets\<close>

lemma new_Set_snoc: "new_Set (xs @ [x]) = set_add (new_Set xs) x"
  by (simp add: new_Set_def)

lemma new_Set_first_occurrences: "new_Set xs = rev (remdups (rev xs))"
proof (induction xs rule: rev_induct)
  case Nil
  show ?case by (simp add: new_Set_def)
next
  case (snoc x xs)
  then show ?case by (simp add: new_Set_snoc set_add_def)
qed

section \<open>The cascading filters\<close>

lemmas ev = cleanName_def split_js_def index0_def js_def underscore_def clean_row_def

lemma load_rawFilters:
  "load (Inr res) st = Inr (st', evs) \<Longrightarrow> rawFilters st' = map clean_row (res_raw res)"
  by (auto simp add: load_def try_catch_def)

lemma loadFilters_rawFilters:
  "loadFilters (Inr res) rt = Inr (rt', evs) \<Longrightarrow>
   rep_rawFilters rt' = map clean_row (or_empty (rf_raw res))"
  by (auto simp add: loadFilters_def try_catch_def)

lemma rawFilters_matching:
  "map row_district (filter (\<lambda>r. row_state r = Some sel) (map clean_row raw)) =
   [cleanName (raw_district r). r \<leftarrow> raw, cleanName (raw_state r) = Some sel]"
  by (induction raw) (simp_all add: clean_row_def)

lemma state_effect_districts:
  "state (filters st) \<noteq> [] \<Longrightarrow>
   districts (filterOptions (state_effect st)) =
     new_Set (map row_district
       (filter (\<lambda>r. row_state r = Some (state (filters st))) (rawFilters st)))"
  by (simp add: state_effect_def truthy_def Let_def)

lemma report_state_effect_districts:
  "rc_state (reportConfig rt) \<noteq> [] \<Longrightarrow>
   rep_districts (rep_filterOptions (report_state_effect rt)) =
     new_Set (map row_district
       (filter (\<lambda>r. row_state r = Some (rc_state (reportConfig rt))) (rep_rawFilters rt)))"
  by (simp add: report_state_effect_def truthy_def Let_def)

text \<open>
  C4. After the filters are loaded from the raw rows, selecting a state offers as districts
  the normalized district names of the rows whose normalized state is the selection:
  each name once, in the order of first occurrence, and none at all when no row matches.
  The Explore page and the Report page offer the same list.
\<close>

theorem districts_of_selected_state:
  assumes "sel \<noteq> []"
    and "state (filters st) = sel" and "rawFilters st = map clean_row raw"
    and "rc_state (reportConfig rt) = sel" and "rep_rawFilters rt = map clean_row raw"
  shows "districts (filterOptions (state_effect st)) =
           rev (remdups (rev [cleanName (raw_district r). r \<leftarrow> raw, cleanName (raw_state r) = Some sel])) \<and>
         distinct (districts (filterOptions (state_effect st))) \<and>
         set (districts (filterOptions (state_effect st))) =
           {cleanName (raw_district r) | r. r \<in> set raw \<and> cleanName (raw_state r) = Some sel} \<and>
         ((\<forall>r \<in> set raw. cleanName (raw_state r) \<noteq> Some sel) \<longrightarrow>
            districts (filterOptions (state_effect st)) = []) \<and>
         rep_districts (rep_filterOptions (report_state_effect rt)) =
           districts (filterOptions (state_effect st))"
proof -
  let ?m = "[cleanName (raw_district r). r \<leftarrow> raw, cleanName (raw_state r) = Some sel]"
  have ds: "districts (filterOptions (state_effect st)) = rev (remdups (rev ?m))"
    using assms(1-3)
    by (simp add: state_effect_districts rawFilters_matching new_Set_first_occurrences)
  have rs: "rep_districts (rep_filterOptions (report_state_effect rt)) = rev (remdups (rev ?m))"
    using assms(1,4,5)
    by (simp add: report_state_effect_districts rawFilters_matching new_Set_first_occurrences)
  have "distinct (rev (remdups (rev ?m)))"
    by simp
  moreover have "set (rev (remdups (rev ?m))) =
      {cleanName (raw_district r) | r. r \<in> set raw \<and> cleanName (raw_state r) = Some sel}"
    by auto
  moreover have "(\<forall>r \<in> set raw. cleanName (raw_state r) \<noteq> Some sel) \<longrightarrow> rev (remdups (rev ?m)) = []"
    by (simp add: filter_empty_conv)
  ultimately show ?thesis
    unfolding ds rs by blast
qed

theorem districts_of_selected_state_witness:
  "districts (filterOptions (state_effect (example_explore\<lparr>filters := no_filters\<lparr>state := js ''Gujarat''\<rparr>\<rparr>))) =
     [Some (js ''Mehsana''), Some (js ''Patan'')] \<and>
   districts (filterOptions (state_effect (example_explore\<lparr>filters := no_filters\<lparr>state := js ''Kerala''\<rparr>\<rparr>))) = []"
proof -
  let ?st = "\<lambda>s. example_explore\<lparr>filters := no_filters\<lparr>state := js s\<rparr>\<rparr>"
  let ?rt = "\<lambda>s. \<lparr>rep_filterOptions = \<lparr>rep_states = [], rep_districts = [], rep_blocks = []\<rparr>,
      rep_rawFilters = map clean_row example_raw,
      reportConfig = \<lparr>rc_state = js s, rc_district = [], rc_block = [], reportType = [],
        includeCharts = True, includeTrends = True, includeComparisons = False,
        includeRecommendations = True\<rparr>\<rparr>"
  have g: "js ''Gujarat'' \<noteq> []" and k: "js ''Kerala'' \<noteq> []"
    by (simp_all add: js_def)
  have a: "districts (filterOptions (state_effect (?st ''Gujarat''))) =
     [Some (js ''Mehsana''), Some (js ''Patan'')]"
    using districts_of_selected_state [of "js ''Gujarat''" "?st ''Gujarat''" example_raw "?rt ''Gujarat''"] g
    by (simp add: example_explore_def example_raw_def no_filters_def ev)
  have b: "districts (filterOptions (state_effect (?st ''Kerala''))) = []"
    using districts_of_selected_state [of "js ''Kerala''" "?st ''Kerala''" example_raw "?rt ''Kerala''"] k
    by (simp add: example_explore_def example_raw_def no_filters_def ev)
  from a b show ?thesis by simp
qed

lemma district_effect_blocks:
  "district (filters st) \<noteq> [] \<Longrightarrow>
   blocks (filterOptions (district_effect st)) =
     new_Set (map row_block
       (filter (\<lambda>r. row_district r = Some (district (filters st))) (rawFilters st)))"
  by (simp add: district_effect_def truthy_def Let_def)

lemma report_district_effect_blocks:
  "rc_district (reportConfig rt) \<noteq> [] \<Longrightarrow>
   rep_blocks (rep_filterOptions (report_district_effect rt)) =
     new_Set (map row_block
       (filter (\<lambda>r. row_district r = Some (rc_district (reportConfig rt))) (rep_rawFilters rt)))"
  by (simp add: report_district_effect_def truthy_def Let_def)

text \<open>
  C10. The blocks offered for a selected district depend on the district alone: two
  selections with the same district, whatever their states, get the same block list from
  the same rows, on the Explore page and on the Report page.
\<close>

theorem blocks_depend_only_on_district:
  assumes "d \<noteq> []"
    and "district (filters s1) = d" and "district (filters s2) = d"
    and "rawFilters s1 = rawFilters s2"
    and "rc_district (reportConfig r1) = d" and "rc_district (reportConfig r2) = d"
    and "rep_rawFilters r1 = rep_rawFilters r2"
  shows "blocks (filterOptions (district_effect s1)) = blocks (filterOptions (district_effect s2)) \<and>
         rep_blocks (rep_filterOptions (report_district_effect r1)) =
           rep_blocks (rep_filterOptions (report_district_effect r2))"
  using assms by (simp add: district_effect_blocks report_district_effect_blocks)

theorem blocks_depend_only_on_district_witness:
  "state (filters (example_explore\<lparr>filters := no_filters\<lparr>state := js ''Gujarat'', district := js ''Mehsana''\<rparr>\<rparr>)) \<noteq>
   state (filters (example_explore\<lparr>filters := no_filters\<lparr>state := js ''Rajasthan'', district := js ''Mehsana''\<rparr>\<rparr>)) \<and>
   blocks (filterOptions (district_effect
     (example_explore\<lparr>filters := no_filters\<lparr>state := js ''Gujarat'', district := js ''Mehsana''\<rparr>\<rparr>))) =
   blocks (filterOptions (district_effect
     (example_explore\<lparr>filters := no_filters\<lparr>state := js ''Rajasthan'', district := js ''Mehsana''\<rparr>\<rparr>))) \<and>
   rep_blocks (rep_filterOptions (report_district_effect
     (example_report\<lparr>reportConfig := example_config\<lparr>rc_state := js ''Gujarat'', rc_district := js ''Mehsana''\<rparr>\<rparr>))) =
   rep_blocks (rep_filterOptions (report_district_effect
     (example_report\<lparr>reportConfig := example_config\<lparr>rc_state := js ''Rajasthan'', rc_district := js ''Mehsana''\<rparr>\<rparr>)))"
proof -
  let ?s = "\<lambda>s. example_explore\<lparr>filters := no_filters\<lparr>state := js s, district := js ''Mehsana''\<rparr>\<rparr>"
  let ?r = "\<lambda>s. example_report\<lparr>reportConfig := example_config\<lparr>rc_state := js s, rc_district := js ''Mehsana''\<rparr>\<rparr>"
  have d: "js ''Mehsana'' \<noteq> []"
    by (simp add: js_def)
  have differ: "state (filters (?s ''Gujarat'')) \<noteq> state (filters (?s ''Rajasthan''))"
    by (simp add: js_def)
  have "blocks (filterOptions (district_effect (?s ''Gujarat''))) =
          blocks (filterOptions (district_effect (?s ''Rajasthan''))) \<and>
        rep_blocks (rep_filterOptions (report_district_effect (?r ''Gujarat''))) =
          rep_blocks (rep_filterOptions (report_district_effect (?r ''Rajasthan'')))"
    by (rule blocks_depend_only_on_district [OF d]) simp_all
  with differ show ?thesis by blast
qed

section \<open>The record search\<close>

lemma to_usv_well_formed: "isWellFormed s \<Longrightarrow> to_usv s = s"
  by (induction s rule: to_usv.induct) (auto split: if_splits)

lemma replacement_no_surrogate:
  "\<not> is_high_surrogate 0xFFFD" "\<not> is_low_surrogate 0xFFFD"
  by (simp_all add: is_high_surrogate_def is_low_surrogate_def)

lemma to_usv_fixed_well_formed: "to_usv s = s \<Longrightarrow> isWellFormed s"
  by (induction s rule: to_usv.induct) (auto simp add: replacement_no_surrogate split: if_splits)

lemma to_usv_nonempty: "s \<noteq> [] \<Longrightarrow> to_usv s \<noteq> []"
  by (induction s rule: to_usv.induct) auto

lemma keys_usv:
  "to_usv (js ''state'') = js ''state''" "to_usv (js ''district'') = js ''district''"
  "to_usv (js ''block'') = js ''block''" "to_usv (js ''year'') = js ''year''"
  "to_usv (js ''season'') = js ''season''"
  by (simp_all add: js_def is_high_surrogate_def is_low_surrogate_def)

lemma build_params_filter:
  "build_params f =
     map (\<lambda>kv. (fst kv, to_usv (snd kv))) (filter (\<lambda>kv. snd kv \<noteq> []) (entries f))"
  by (simp add: build_params_def entries_def append_if_set_def qp_append_def truthy_def keys_usv)

lemma build_params_keys:
  "map fst (build_params f) = map fst (filter (\<lambda>kv. snd kv \<noteq> []) (entries f))"
  by (simp add: build_params_filter comp_def)

lemma handleSearch_events:
  "\<exists>st' t. handleSearch getData st =
      Inr (st', [Request (js ''/water-level'', build_params (filters st)), Toast t])"
  by (cases "getData (js ''/water-level'', build_params (filters st))")
     (simp_all add: handleSearch_def try_catch_def Let_def)

lemma keys_differ:
  "js ''state'' \<noteq> js ''district''" "js ''state'' \<noteq> js ''block''" "js ''state'' \<noteq> js ''year''"
  "js ''state'' \<noteq> js ''season''" "js ''district'' \<noteq> js ''block''" "js ''district'' \<noteq> js ''year''"
  "js ''district'' \<noteq> js ''season''" "js ''block'' \<noteq> js ''year''" "js ''block'' \<noteq> js ''season''"
  "js ''year'' \<noteq> js ''season''"
  by (simp_all add: js_def)

text \<open>
  C2, as the page does it. The search sends one request to \<^verbatim>\<open>/water-level\<close>. A filter
  field that is empty adds no parameter, and any subset of the five fields may be empty;
  each field that is not empty adds one parameter under its own name, whose value is the
  field's value as a \<^verbatim>\<open>USVString\<close>: the value itself when it is well formed, and
  otherwise the value with its unpaired surrogates replaced by U+FFFD, which is never
  empty.
\<close>

theorem handleSearch_sends_exactly_set_filters:
  "(\<exists>st' t. handleSearch getData st =
      Inr (st', [Request (js ''/water-level'', build_params (filters st)), Toast t])) \<and>
   build_params f =
     map (\<lambda>kv. (fst kv, to_usv (snd kv))) (filter (\<lambda>kv. snd kv \<noteq> []) (entries f)) \<and>
   map_of (build_params f) (js ''state'') =
     (if state f = [] then None else Some (to_usv (state f))) \<and>
   map_of (build_params f) (js ''district'') =
     (if district f = [] then None else Some (to_usv (district f))) \<and>
   map_of (build_params f) (js ''block'') =
     (if block f = [] then None else Some (to_usv (block f))) \<and>
   map_of (build_params f) (js ''year'') =
     (if year f = [] then None else Some (to_usv (year f))) \<and>
   map_of (build_params f) (js ''season'') =
     (if season f = [] then None else Some (to_usv (season f))) \<and>
   distinct (map fst (build_params f)) \<and>
   set (map fst (build_params f)) \<subseteq>
     {js ''state'', js ''district'', js ''block'', js ''year'', js ''season''} \<and>
   isWellFormed v = (to_usv v = v) \<and>
   (v \<noteq> [] \<longrightarrow> to_usv v \<noteq> []) \<and>
   (isWellFormed (state f) \<and> isWellFormed (district f) \<and> isWellFormed (block f) \<and>
    isWellFormed (year f) \<and> isWellFormed (season f) \<longrightarrow>
      build_params f = filter (\<lambda>kv. snd kv \<noteq> []) (entries f))"
proof -
  note ks = keys_differ keys_differ [symmetric]
  have "map_of (build_params f) (js ''state'') =
      (if state f = [] then None else Some (to_usv (state f)))"
    by (simp add: build_params_filter entries_def ks)
  moreover have "map_of (build_params f) (js ''district'') =
      (if district f = [] then None else Some (to_usv (district f)))"
    by (simp add: build_params_filter entries_def ks)
  moreover have "map_of (build_params f) (js ''block'') =
      (if block f = [] then None else Some (to_usv (block f)))"
    by (simp add: build_params_filter entries_def ks)
  moreover have "map_of (build_params f) (js ''year'') =
      (if year f = [] then None else Some (to_usv (year f)))"
    by (simp add: build_params_filter entries_def ks)
  moreover have "map_of (build_params f) (js ''season'') =
      (if season f = [] then None else Some (to_usv (season f)))"
    by (simp add: build_params_filter entries_def ks)
  moreover have "distinct (map fst (build_params f))"
    unfolding build_params_keys
    by (rule distinct_map_filter) (simp add: entries_def ks)
  moreover have "set (map fst (build_params f)) \<subseteq>
     {js ''state'', js ''district'', js ''block'', js ''year'', js ''season''}"
    unfolding build_params_keys by (auto simp add: entries_def)
  moreover have "isWellFormed v = (to_usv v = v)"
    using to_usv_well_formed [of v] to_usv_fixed_well_formed [of v] by blast
  moreover have "v \<noteq> [] \<longrightarrow> to_usv v \<noteq> []"
    by (simp add: to_usv_nonempty)
  moreover have "build_params f = filter (\<lambda>kv. snd kv \<noteq> []) (entries f)"
    if "isWellFormed (state f)" "isWellFormed (district f)" "isWellFormed (block f)"
       "isWellFormed (year f)" "isWellFormed (season f)"
    using that by (simp add: build_params_filter entries_def to_usv_well_formed)
  ultimately show ?thesis
    using handleSearch_events [of getData st] build_params_filter [of f] by blast
qed

theorem handleSearch_sends_exactly_set_filters_witness:
  "build_params (no_filters\<lparr>state := js ''Gujarat'', year := js ''2020''\<rparr>) =
     [(js ''state'', js ''Gujarat''), (js ''year'', js ''2020'')] \<and>
   map_of (build_params (no_filters\<lparr>state := js ''Gujarat'', year := js ''2020''\<rparr>)) (js ''district'') =
     None \<and>
   build_params no_filters = []"
proof -
  let ?f = "no_filters\<lparr>state := js ''Gujarat'', year := js ''2020''\<rparr>"
  note sent = handleSearch_sends_exactly_set_filters [of newest_first example_explore ?f "[]"]
  note none = handleSearch_sends_exactly_set_filters [of newest_first example_explore no_filters "[]"]
  have wf: "isWellFormed (state ?f) \<and> isWellFormed (district ?f) \<and> isWellFormed (block ?f) \<and>
      isWellFormed (year ?f) \<and> isWellFormed (season ?f)"
    by (simp add: no_filters_def js_def is_high_surrogate_def is_low_surrogate_def)
  with sent have "build_params ?f = filter (\<lambda>kv. snd kv \<noteq> []) (entries ?f)"
    by blast
  then have a: "build_params ?f = [(js ''state'', js ''Gujarat''), (js ''year'', js ''2020'')]"
    by (simp add: entries_def no_filters_def js_def)
  from sent have "map_of (build_params ?f) (js ''district'') =
      (if district ?f = [] then None else Some (to_usv (district ?f)))"
    by blast
  then have b: "map_of (build_params ?f) (js ''district'') = None"
    by (simp add: no_filters_def)
  have "isWellFormed (state no_filters) \<and> isWellFormed (district no_filters) \<and>
      isWellFormed (block no_filters) \<and> isWellFormed (year no_filters) \<and>
      isWellFormed (season no_filters)"
    by (simp add: no_filters_def)
  with none have "build_params no_filters = filter (\<lambda>kv. snd kv \<noteq> []) (entries no_filters)"
    by blast
  then have c: "build_params no_filters = []"
    by (simp add: entries_def no_filters_def)
  from a b c show ?thesis by blast
qed

text \<open>
  C2 as stated fails: a state that is the single code unit U+D83D, an unpaired
  surrogate, is sent as U+FFFD, which is not the field's current value.
\<close>

theorem handleSearch_value_replaced_counterexample:
  "map_of (build_params (no_filters\<lparr>state := [0xD83D]\<rparr>)) (js ''state'') = Some [0xFFFD] \<and>
   map_of (build_params (no_filters\<lparr>state := [0xD83D]\<rparr>)) (js ''state'') \<noteq>
     Some (state (no_filters\<lparr>state := [0xD83D]\<rparr>))"
  by (simp add: build_params_def entries_def append_if_set_def qp_append_def truthy_def
      keys_usv no_filters_def is_high_surrogate_def)

lemma handleSearch_ok:
  "getData (js ''/water-level'', build_params (filters st)) = Inr res \<Longrightarrow>
   \<exists>evs. handleSearch getData st = Inr (st\<lparr>rows := res, chartData := map to_chart res\<rparr>, evs)"
  by (simp add: handleSearch_def try_catch_def Let_def)

text \<open>
  C3, as the page does it. The chart series has one point per record of the result, with
  the record's year and water level, in the order of the result. The page does not sort:
  the series ascends by year exactly when the result does. Records of the same year each
  give their own point.
\<close>

theorem chart_series_follows_result_order:
  assumes "getData (js ''/water-level'', build_params (filters st)) = Inr res"
  shows "\<exists>st' evs. handleSearch getData st = Inr (st', evs) \<and>
           rows st' = res \<and>
           length (chartData st') = length res \<and>
           (\<forall>i < length res.
              cp_year (chartData st' ! i) = rec_year (res ! i) \<and>
              level (chartData st' ! i) = water_level (res ! i)) \<and>
           (sorted (map cp_year (chartData st')) = sorted (map rec_year res))"
proof -
  from handleSearch_ok [of getData st res, OF assms] obtain evs where
    run: "handleSearch getData st = Inr (st\<lparr>rows := res, chartData := map to_chart res\<rparr>, evs)"
    by blast
  let ?st' = "st\<lparr>rows := res, chartData := map to_chart res\<rparr>"
  have years: "map cp_year (chartData ?st') = map rec_year res"
    by (simp add: to_chart_def)
  have points: "\<forall>i < length res.
      cp_year (chartData ?st' ! i) = rec_year (res ! i) \<and>
      level (chartData ?st' ! i) = water_level (res ! i)"
    by (simp add: to_chart_def)
  have "rows ?st' = res" and "length (chartData ?st') = length res"
    by simp_all
  with run points years show ?thesis
    by metis
qed

theorem chart_series_follows_result_order_witness:
  "map (\<lambda>p. (cp_year p, level p))
     (chartData (fst (projr (handleSearch newest_first example_explore)))) =
     [(2021, 1240), (2021, 1310), (2020, 1190)]"
proof -
  have "newest_first (js ''/water-level'', build_params (filters example_explore)) = Inr example_rows"
    by (simp add: newest_first_def)
  from chart_series_follows_result_order [of newest_first example_explore example_rows, OF this]
  obtain st' evs where run: "handleSearch newest_first example_explore = Inr (st', evs)"
    and len: "length (chartData st') = length example_rows"
    and pts: "\<forall>i < length example_rows.
              cp_year (chartData st' ! i) = rec_year (example_rows ! i) \<and>
              level (chartData st' ! i) = water_level (example_rows ! i)"
    by blast
  from len obtain a b c where abc: "chartData st' = [a, b, c]"
    by (auto simp add: example_rows_def length_Suc_conv)
  have "(0::nat) < length example_rows" and "(1::nat) < length example_rows"
    and "(2::nat) < length example_rows"
    by (simp_all add: example_rows_def)
  with pts have "cp_year a = 2021 \<and> level a = 1240" and "cp_year b = 2021 \<and> level b = 1310"
    and "cp_year c = 2020 \<and> level c = 1190"
    unfolding abc by (fastforce simp add: example_rows_def)+
  with run abc show ?thesis by simp
qed

text \<open>
  C3 as stated fails: a result that comes newest first gives a series that is not
  ascending by year.
\<close>

theorem chart_series_not_sorted_counterexample:
  "map cp_year (chartData (fst (projr (handleSearch newest_first example_explore)))) = [2021, 2021, 2020] \<and>
   \<not> sorted (map cp_year (chartData (fst (projr (handleSearch newest_first example_explore)))))"
  by (simp add: handleSearch_def try_catch_def Let_def newest_first_def example_rows_def to_chart_def)

section \<open>Report generation\<close>

text \<open>
  C5, as the page does it. When the state, the district or the report type is empty, the
  page shows one notification, the same whichever field is missing, and sends no request;
  when all three are set, it announces the generation and sends the configuration to
  \<^verbatim>\<open>/generate_report\<close>.
\<close>

theorem report_requires_state_district_type:
  assumes "reportConfig st = cfg"
  shows "(rc_state cfg = [] \<or> rc_district cfg = [] \<or> reportType cfg = [] \<longrightarrow>
            handleGenerateReport postData st = Inr [Toast missing_information]) \<and>
         (rc_state cfg \<noteq> [] \<and> rc_district cfg \<noteq> [] \<and> reportType cfg \<noteq> [] \<longrightarrow>
            (\<exists>rest. handleGenerateReport postData st =
               Inr (Toast generating_report # Request (js ''/generate_report'', Some cfg) # rest)))"
proof -
  have "\<exists>rest. handleGenerateReport postData st =
      Inr (Toast generating_report # Request (js ''/generate_report'', Some cfg) # rest)"
    if "rc_state cfg \<noteq> []" "rc_district cfg \<noteq> []" "reportType cfg \<noteq> []"
    using that assms
    by (cases "postData (js ''/generate_report'', Some cfg)")
       (simp_all add: handleGenerateReport_def try_catch_def Let_def truthy_def)
  moreover have "handleGenerateReport postData st = Inr [Toast missing_information]"
    if "rc_state cfg = [] \<or> rc_district cfg = [] \<or> reportType cfg = []"
    using that assms by (auto simp add: handleGenerateReport_def Let_def truthy_def)
  ultimately show ?thesis by blast
qed

theorem report_requires_state_district_type_witness:
  "handleGenerateReport report_backend (example_report\<lparr>reportConfig := example_config\<lparr>rc_district := []\<rparr>\<rparr>) =
     Inr [Toast missing_information] \<and>
   handleGenerateReport report_backend example_report =
     Inr [Toast generating_report, Request (js ''/generate_report'', Some example_config),
          Toast \<lparr>title = js ''Report Ready'', description = js ''done'', variant = None\<rparr>,
          Download (js ''http://127.0.0.1:8000/reports/Mehsana.pdf'') (js ''Mehsana.pdf'')]"
proof -
  have "handleGenerateReport report_backend (example_report\<lparr>reportConfig := example_config\<lparr>rc_district := []\<rparr>\<rparr>) =
     Inr [Toast missing_information]"
    using report_requires_state_district_type
      [of "example_report\<lparr>reportConfig := example_config\<lparr>rc_district := []\<rparr>\<rparr>"
          "example_config\<lparr>rc_district := []\<rparr>" report_backend]
    by simp
  moreover have "\<exists>rest. handleGenerateReport report_backend example_report =
      Inr (Toast generating_report # Request (js ''/generate_report'', Some example_config) # rest)"
    using report_requires_state_district_type [of example_report example_config report_backend]
    by (simp add: example_report_def example_config_def js_def)
  then have "handleGenerateReport report_backend example_report =
     Inr [Toast generating_report, Request (js ''/generate_report'', Some example_config),
          Toast \<lparr>title = js ''Report Ready'', description = js ''done'', variant = None\<rparr>,
          Download (js ''http://127.0.0.1:8000/reports/Mehsana.pdf'') (js ''Mehsana.pdf'')]"
    by (simp add: handleGenerateReport_def try_catch_def Let_def truthy_def example_report_def
        example_config_def report_backend_def download_file_def or_else_def pop_def split_js_def
        js_def)
  ultimately show ?thesis by blast
qed

text \<open>
  C5 as stated fails: the notification for a missing state is the notification for a
  missing report type, and its text mentions neither field.
\<close>

theorem report_error_names_no_field_counterexample:
  "handleGenerateReport report_backend
     (example_report\<lparr>reportConfig := example_config\<lparr>rc_state := []\<rparr>\<rparr>) =
     Inr [Toast missing_information] \<and>
   handleGenerateReport report_backend
     (example_report\<lparr>reportConfig := example_config\<lparr>reportType := []\<rparr>\<rparr>) =
     Inr [Toast missing_information] \<and>
   \<not> names_field missing_information (js ''state'') \<and>
   \<not> names_field missing_information (js ''State'') \<and>
   \<not> names_field missing_information (js ''reportType'') \<and>
   \<not> names_field missing_information (js ''report'')"
  by (simp add: handleGenerateReport_def Let_def truthy_def example_report_def
      example_config_def names_field_def missing_information_def js_def)

section \<open>Asking a question\<close>

lemma trim_blank:
  assumes "\<forall>c \<in> set s. is_white_space c"
  shows "trim s = []"
proof -
  from assms have blank: "dropWhile is_white_space s = []"
    by simp
  show ?thesis
    unfolding trim_def blank by simp
qed

text \<open>
  C7. Submitting a question that is empty or holds only white space does nothing: no
  request is sent, no message is added, and the state stays as it was.
\<close>

theorem blank_question_changes_nothing:
  assumes "\<forall>c \<in> set (query st). is_white_space c"
  shows "handleSubmit postData st = Inr (st, [PreventDefault])"
  using assms by (simp add: handleSubmit_def truthy_def trim_blank)

theorem blank_question_changes_nothing_witness:
  "handleSubmit ask_backend (example_ask\<lparr>query := [0x20, 0x09, 0x3000]\<rparr>) =
     Inr (example_ask\<lparr>query := [0x20, 0x09, 0x3000]\<rparr>, [PreventDefault]) \<and>
   handleSubmit ask_backend (example_ask\<lparr>query := []\<rparr>) =
     Inr (example_ask\<lparr>query := []\<rparr>, [PreventDefault])"
proof -
  have "\<forall>c \<in> set (query (example_ask\<lparr>query := [0x20, 0x09, 0x3000]\<rparr>)). is_white_space c"
    by (simp add: is_white_space_def)
  from blank_question_changes_nothing [OF this, of ask_backend]
  have a: "handleSubmit ask_backend (example_ask\<lparr>query := [0x20, 0x09, 0x3000]\<rparr>) =
     Inr (example_ask\<lparr>query := [0x20, 0x09, 0x3000]\<rparr>, [PreventDefault])" .
  have "\<forall>c \<in> set (query (example_ask\<lparr>query := []\<rparr>)). is_white_space c"
    by simp
  from blank_question_changes_nothing [OF this, of ask_backend]
  have "handleSubmit ask_backend (example_ask\<lparr>query := []\<rparr>) =
     Inr (example_ask\<lparr>query := []\<rparr>, [PreventDefault])" .
  with a show ?thesis by blast
qed

lemma or_else_truthy: "b \<noteq> [] \<Longrightarrow> or_else a b \<noteq> []"
  by (simp add: or_else_def truthy_def split: option.splits)

lemma or_else_cases: "or_else a b = b \<or> a = Some (or_else a b)"
  by (simp add: or_else_def split: option.splits)

lemma ask_texts:
  "backend_unreachable \<noteq> []" "backend_unreachable \<noteq> no_answer" "no_answer \<noteq> []"
  by (simp_all add: backend_unreachable_def no_answer_def js_def)

lemma ask_toasts: "processing \<noteq> backend_not_responding"
  by (simp add: processing_def backend_not_responding_def js_def)

lemma handleSubmit_throws:
  assumes "trim (query st) \<noteq> []"
    and "postData (js ''/ask_ai'', query st, 5) = Inl err"
  shows "handleSubmit postData st =
      Inr (st\<lparr>messages := messages st @
                [\<lparr>msg_type = js ''user'', content = query st\<rparr>,
                 \<lparr>msg_type = js ''bot'', content = backend_unreachable\<rparr>],
              query := []\<rparr>,
           [PreventDefault, Toast processing, Request (js ''/ask_ai'', query st, 5),
            ConsoleError (Some (js ''Ask API Error:'')) err, Toast backend_not_responding])"
  using assms by (simp add: handleSubmit_def try_catch_def Let_def truthy_def)

lemma handleSubmit_returns:
  assumes "trim (query st) \<noteq> []"
    and "postData (js ''/ask_ai'', query st, 5) = Inr response"
  shows "handleSubmit postData st =
      Inr (st\<lparr>messages := messages st @
                [\<lparr>msg_type = js ''user'', content = query st\<rparr>,
                 \<lparr>msg_type = js ''bot'',
                  content = or_else (Option.bind response answer) no_answer\<rparr>],
              query := []\<rparr>,
           [PreventDefault, Toast processing, Request (js ''/ask_ai'', query st, 5)])"
  using assms by (simp add: handleSubmit_def try_catch_def Let_def truthy_def)

text \<open>
  C6. For a submitted question the handler makes one request to \<^verbatim>\<open>/ask_ai\<close> and never
  throws. When the call throws, it adds the user's question and a bot message with the
  text of the catch branch, logs the error and shows the error toast. When the call
  returns, it adds the user's question and a bot message with the answer, or with the
  fallback text when there is no answer, and shows no error toast. The text of the catch
  branch is not empty and is not the fallback text, so the normal path shows it only when
  it is the backend's own answer. On both paths the last message is a bot message that is
  not empty.
\<close>

theorem ask_failure_becomes_bot_message:
  assumes "trim (query st) \<noteq> []"
  shows "(postData (js ''/ask_ai'', query st, 5) = Inl err \<longrightarrow>
           handleSubmit postData st =
             Inr (st\<lparr>messages := messages st @
                       [\<lparr>msg_type = js ''user'', content = query st\<rparr>,
                        \<lparr>msg_type = js ''bot'', content = backend_unreachable\<rparr>],
                     query := []\<rparr>,
                  [PreventDefault, Toast processing, Request (js ''/ask_ai'', query st, 5),
                   ConsoleError (Some (js ''Ask API Error:'')) err,
                   Toast backend_not_responding])) \<and>
         (postData (js ''/ask_ai'', query st, 5) = Inr response \<longrightarrow>
           handleSubmit postData st =
             Inr (st\<lparr>messages := messages st @
                       [\<lparr>msg_type = js ''user'', content = query st\<rparr>,
                        \<lparr>msg_type = js ''bot'',
                         content = or_else (Option.bind response answer) no_answer\<rparr>],
                     query := []\<rparr>,
                  [PreventDefault, Toast processing, Request (js ''/ask_ai'', query st, 5)]) \<and>
           Toast backend_not_responding \<notin>
             set (snd (projr (handleSubmit postData st))) \<and>
           (Option.bind response answer \<noteq> Some backend_unreachable \<longrightarrow>
              content (last (messages (fst (projr (handleSubmit postData st))))) \<noteq>
                backend_unreachable)) \<and>
         backend_unreachable \<noteq> [] \<and> backend_unreachable \<noteq> no_answer \<and>
         (\<exists>st' evs reply. handleSubmit postData st = Inr (st', evs) \<and>
            messages st' = messages st @
              [\<lparr>msg_type = js ''user'', content = query st\<rparr>,
               \<lparr>msg_type = js ''bot'', content = reply\<rparr>] \<and>
            reply \<noteq> [])"
proof -
  let ?req = "(js ''/ask_ai'', query st, 5 :: nat)"
  have thrown: "?thesis" if call: "postData ?req = Inl e" for e
  proof -
    note run = handleSubmit_throws [of st postData e, OF assms call]
    have "\<exists>st' evs reply. handleSubmit postData st = Inr (st', evs) \<and>
        messages st' = messages st @
          [\<lparr>msg_type = js ''user'', content = query st\<rparr>,
           \<lparr>msg_type = js ''bot'', content = reply\<rparr>] \<and>
        reply \<noteq> []"
      unfolding run using ask_texts(1) by simp
    with call run ask_texts show ?thesis
      by auto
  qed
  have returned: "?thesis" if call: "postData ?req = Inr r" for r
  proof -
    note run = handleSubmit_returns [of st postData r, OF assms call]
    let ?reply = "or_else (Option.bind r answer) no_answer"
    have shown: "\<exists>st' evs reply. handleSubmit postData st = Inr (st', evs) \<and>
        messages st' = messages st @
          [\<lparr>msg_type = js ''user'', content = query st\<rparr>,
           \<lparr>msg_type = js ''bot'', content = reply\<rparr>] \<and>
        reply \<noteq> []"
      unfolding run using or_else_truthy [OF ask_texts(3), of "Option.bind r answer"] by simp
    have quiet: "Toast backend_not_responding \<notin> set (snd (projr (handleSubmit postData st)))"
      unfolding run using ask_toasts by auto
    have own: "content (last (messages (fst (projr (handleSubmit postData st))))) \<noteq>
        backend_unreachable"
      if "Option.bind r answer \<noteq> Some backend_unreachable"
    proof -
      from or_else_cases [of "Option.bind r answer" no_answer] that ask_texts(2)
      have "?reply \<noteq> backend_unreachable"
        by metis
      then show ?thesis
        unfolding run by simp
    qed
    from call run shown quiet own ask_texts show ?thesis
      by auto
  qed
  show ?thesis
  proof (cases "postData ?req")
    case (Inl e)
    then show ?thesis by (rule thrown)
  next
    case (Inr r)
    then show ?thesis by (rule returned)
  qed
qed

theorem ask_failure_becomes_bot_message_witness:
  "handleSubmit backend_down example_ask =
     Inr (\<lparr>query = [],
           messages =
             [\<lparr>msg_type = js ''bot'', content = js ''Hello!''\<rparr>,
              \<lparr>msg_type = js ''user'', content = js ''What is an aquifer?''\<rparr>,
              \<lparr>msg_type = js ''bot'', content = backend_unreachable\<rparr>]\<rparr>,
          [PreventDefault, Toast processing,
           Request (js ''/ask_ai'', js ''What is an aquifer?'', 5),
           ConsoleError (Some (js ''Ask API Error:'')) FetchFailed,
           Toast backend_not_responding]) \<and>
   handleSubmit ask_backend example_ask =
     Inr (\<lparr>query = [],
           messages =
             [\<lparr>msg_type = js ''bot'', content = js ''Hello!''\<rparr>,
              \<lparr>msg_type = js ''user'', content = js ''What is an aquifer?''\<rparr>,
              \<lparr>msg_type = js ''bot'', content = js ''A layer of rock that holds water.''\<rparr>]\<rparr>,
          [PreventDefault, Toast processing,
           Request (js ''/ask_ai'', js ''What is an aquifer?'', 5)])"
proof -
  have q: "trim (query example_ask) \<noteq> []"
    by (simp add: example_ask_def trim_def is_white_space_def js_def)
  have down: "backend_down (js ''/ask_ai'', query example_ask, 5) =
      (Inl FetchFailed :: api_error + ask_response option)"
    by (simp add: backend_down_def)
  have up: "ask_backend (js ''/ask_ai'', query example_ask, 5) =
      Inr (Some \<lparr>answer = Some (js ''A layer of rock that holds water.'')\<rparr>)"
    by (simp add: ask_backend_def)
  from ask_failure_becomes_bot_message [OF q, of backend_down FetchFailed None] down
  have "handleSubmit backend_down example_ask =
      Inr (example_ask\<lparr>messages := messages example_ask @
                [\<lparr>msg_type = js ''user'', content = query example_ask\<rparr>,
                 \<lparr>msg_type = js ''bot'', content = backend_unreachable\<rparr>],
              query := []\<rparr>,
           [PreventDefault, Toast processing, Request (js ''/ask_ai'', query example_ask, 5),
            ConsoleError (Some (js ''Ask API Error:'')) FetchFailed,
            Toast backend_not_responding])"
    by blast
  then have a: "handleSubmit backend_down example_ask =
     Inr (\<lparr>query = [],
           messages =
             [\<lparr>msg_type = js ''bot'', content = js ''Hello!''\<rparr>,
              \<lparr>msg_type = js ''user'', content = js ''What is an aquifer?''\<rparr>,
              \<lparr>msg_type = js ''bot'', content = backend_unreachable\<rparr>]\<rparr>,
          [PreventDefault, Toast processing,
           Request (js ''/ask_ai'', js ''What is an aquifer?'', 5),
           ConsoleError (Some (js ''Ask API Error:'')) FetchFailed,
           Toast backend_not_responding])"
    by (simp add: example_ask_def)
  from ask_failure_becomes_bot_message
    [OF q, of ask_backend FetchFailed
       "Some \<lparr>answer = Some (js ''A layer of rock that holds water.'')\<rparr>"] up
  have "handleSubmit ask_backend example_ask =
      Inr (example_ask\<lparr>messages := messages example_ask @
                [\<lparr>msg_type = js ''user'', content = query example_ask\<rparr>,
                 \<lparr>msg_type = js ''bot'',
                  content = or_else (Option.bind
                    (Some \<lparr>answer = Some (js ''A layer of rock that holds water.'')\<rparr>) answer)
                    no_answer\<rparr>],
              query := []\<rparr>,
           [PreventDefault, Toast processing, Request (js ''/ask_ai'', query example_ask, 5)])"
    by blast
  then have b: "handleSubmit ask_backend example_ask =
     Inr (\<lparr>query = [],
           messages =
             [\<lparr>msg_type = js ''bot'', content = js ''Hello!''\<rparr>,
              \<lparr>msg_type = js ''user'', content = js ''What is an aquifer?''\<rparr>,
              \<lparr>msg_type = js ''bot'', content = js ''A layer of rock that holds water.''\<rparr>]\<rparr>,
          [PreventDefault, Toast processing,
           Request (js ''/ask_ai'', js ''What is an aquifer?'', 5)])"
    by (simp add: example_ask_def or_else_def truthy_def js_def)
  from a b show ?thesis by blast
qed

end
